theory Spec2Isabelle
  imports Main
begin

section \<open>Query rewriter (utils.go, rewriteQuery)\<close>

text \<open>
  The rewriter ranges over the runes of the query. A query is modelled as the list of
  its runes, each rune a \<^typ>\<open>char\<close>; the output \<open>string(runes)\<close> is the list of
  runes collected. The two quote runes are written by their code points.
\<close>

abbreviation dquote :: char where "dquote \<equiv> CHR 0x22"
abbreviation squote :: char where "squote \<equiv> CHR 0x27"

text \<open>\<open>fmt.Sprintf("%d", n)\<close> for a natural number: its decimal digits.\<close>

function decimal :: "nat \<Rightarrow> string" where
  "decimal n =
     (if n < 10 then [''0123456789'' ! n]
      else decimal (n div 10) @ [''0123456789'' ! (n mod 10)])"
  by pat_completeness auto
termination
  by (relation "measure id") auto

declare decimal.simps [simp del]

text \<open>
  The local variables of the loop: the output \<open>runes\<close>, the quote \<open>stack\<close> (its top is
  the last element, as \<open>stack[len(stack)-1]\<close>) and \<open>exclamationCount\<close>.
\<close>

record rewriter =
  runes :: string
  stack :: string
  exclamationCount :: nat

definition rewriter0 :: rewriter where
  "rewriter0 = \<lparr>runes = [], stack = [], exclamationCount = 0\<rparr>"

text \<open>
  The tail of the loop body, reached when no \<open>continue\<close> was taken: the second
  \<open>switch\<close> pushes a quote rune, then the rune is appended.
\<close>

definition pushAndCopy :: "rewriter \<Rightarrow> char \<Rightarrow> rewriter" where
  "pushAndCopy st r =
     (let st1 = (if r = dquote \<or> r = squote then st\<lparr>stack := stack st @ [r]\<rparr> else st)
      in st1\<lparr>runes := runes st1 @ [r]\<rparr>)"

text \<open>One iteration of \<open>for _, r := range query\<close>.\<close>

definition rewriteStep :: "rewriter \<Rightarrow> char \<Rightarrow> rewriter" where
  "rewriteStep st r =
     (if length (stack st) > 0 then
        (if r = last (stack st)
         then st\<lparr>stack := butlast (stack st), runes := runes st @ [r]\<rparr>
         else pushAndCopy st r)
      else if r = CHR ''?'' then
        st\<lparr>exclamationCount := exclamationCount st + 1,
           runes := runes st @ '':'' @ decimal (exclamationCount st + 1)\<rparr>
      else if r = CHR ''$'' then
        st\<lparr>runes := runes st @ '':''\<rparr>
      else pushAndCopy st r)"

definition rewriteLoop :: "string \<Rightarrow> rewriter" where
  "rewriteLoop query = foldl rewriteStep rewriter0 query"

definition rewriteQuery :: "string \<Rightarrow> nat \<Rightarrow> string" where
  "rewriteQuery query paramsCount =
     (if paramsCount = 0 then query else runes (rewriteLoop query))"


section \<open>Helpers (utils/utils.go) and the parameter binder\<close>

text \<open>A \<open>*string\<close> is a \<^typ>\<open>string option\<close>, \<open>nil\<close> being \<^const>\<open>None\<close>.\<close>

definition Nullif :: "string \<Rightarrow> string option" where
  "Nullif str = (if str = [] then None else Some str)"

fun Coalesce :: "string option list \<Rightarrow> string" where
  "Coalesce [] = []"
| "Coalesce (None # strs) = Coalesce strs"
| "Coalesce (Some str # strs) = str"

text \<open>\<open>fmt.Sprintf("%d", i)\<close> for an \<open>int\<close>.\<close>

definition decimalInt :: "int \<Rightarrow> string" where
  "decimalInt i = (if i < 0 then ''-'' @ decimal (nat (- i)) else decimal (nat i))"

text \<open>
  \<open>driver.NamedValue\<close>; the field \<open>argValue\<close> holds the \<open>%v\<close> rendering of the
  argument's value, which is all the binder reads of it.
\<close>

record NamedValue =
  argName :: string
  argOrdinal :: int
  argValue :: string

record SqlParameter =
  paramName :: string
  paramValue :: string

definition convertArgsToParameters :: "NamedValue list \<Rightarrow> SqlParameter list" where
  "convertArgsToParameters args =
     (if length args = 0 then []
      else map (\<lambda>arg. \<lparr>paramName = Coalesce [Nullif (argName arg), Some (decimalInt (argOrdinal arg))],
                        paramValue = argValue arg\<rparr>) args)"

section \<open>Data model of the connection (conn.go, result.go, errors.go)\<close>

text \<open>
  Errors are values: the three sentinel errors of package \<open>errors\<close>, an error wrapped
  by \<open>fmt.Errorf(prefix + "%w", err)\<close>, an error made by \<open>fmt.Errorf\<close> without wrapping
  (its formatted message), and an error handed back by a collaborator.
\<close>

datatype error =
    ErrNotSupported
  | ErrInTx
  | ErrNotInTx
  | Wrapf string error
  | Errorf string
  | ErrCollaborator string

text \<open>
  A call returns a value or an error, or it panics; a panic is not an error value.
\<close>

datatype 'a outcome = Ok 'a | Err error | Panic string

record TxOptions =
  Isolation :: int
  ReadOnly :: bool

definition LevelDefault :: int where
  "LevelDefault = 0"

definition TxOptions0 :: TxOptions where
  "TxOptions0 = \<lparr>Isolation = 0, ReadOnly = False\<rparr>"

text \<open>
  A \<open>*redshiftDataDelayedResult\<close> is an address of the store, or \<open>nil\<close>. The struct
  has one field, the embedded \<open>driver.Result\<close>, so the store holds at each address the
  value of that field. A \<open>driver.Result\<close> is \<open>nil\<close>, a \<open>*redshiftDataResult\<close> (given by
  its \<open>affectedRows\<close>), a \<open>*redshiftDataDelayedResult\<close>, or the value of
  \<open>newResult(output)\<close>, a function that is not among the sources and is left
  uninterpreted.
\<close>

type_synonym addr = nat

record DescribeStatementOutput =
  Status :: string
  Error :: "string option"
  HasResultSet :: "bool option"
  ResultRows :: int

datatype Result =
    NilResult
  | RedshiftDataResult int
  | DelayedResult addr
  | NewResult DescribeStatementOutput

record SubStatementData =
  subResultRows :: int

definition NewResultWithSubStatementData :: "SubStatementData \<Rightarrow> Result" where
  "NewResultWithSubStatementData st = RedshiftDataResult (subResultRows st)"

definition StatusStringAborted :: string where "StatusStringAborted = ''ABORTED''"
definition StatusStringFailed :: string where "StatusStringFailed = ''FAILED''"
definition StatusStringFinished :: string where "StatusStringFinished = ''FINISHED''"

record ExecuteStatementInput =
  Sql :: "string option"
  Parameters :: "SqlParameter list"
  ClusterIdentifier :: "string option"
  Database :: "string option"
  DbUser :: "string option"
  SecretArn :: "string option"
  WorkgroupName :: "string option"

text \<open>The fields of \<open>RedshiftDataConfig\<close> that the connection reads.\<close>

record RedshiftDataConfig =
  cfgClusterIdentifier :: "string option"
  cfgDatabase :: "string option"
  cfgDBUser :: "string option"
  cfgSecretsArn :: "string option"
  cfgWorkgroupName :: "string option"

text \<open>
  The paginator made by \<open>NewGetStatementResultPaginator\<close> for a statement id, and the
  rows made by \<open>newRows(id, p)\<close> (not among the sources, uninterpreted).
\<close>

datatype Paginator = GetStatementResultPaginator "string option"

datatype Rows = NewRows string "Paginator option"

text \<open>
  What the connection asks of its collaborators. Every such call is recorded in the
  state, in order: \<open>client.ExecuteStatement\<close>, and the three methods of the connection
  whose bodies are not among the sources (\<open>waitWithCancel\<close>, \<open>ExecuteStatement\<close>,
  \<open>BatchExecuteStatement\<close>), which are the ones that reach \<open>DescribeStatement\<close> and
  \<open>BatchExecuteStatement\<close> of the client.
\<close>

datatype remote_call =
    CallClientExecuteStatement ExecuteStatementInput
  | CallWaitWithCancel "string option"
  | CallConnExecuteStatement ExecuteStatementInput
  | CallBatchExecuteStatement "string list"

text \<open>
  The answers of the collaborators are parameters of the model: any function may stand
  for each. \<open>Inl\<close> is the error returned.
\<close>

record env =
  clientExecuteStatement :: "ExecuteStatementInput \<Rightarrow> error + string option"
  waitWithCancel :: "string option \<Rightarrow> error + DescribeStatementOutput"
  connExecuteStatement :: "ExecuteStatementInput \<Rightarrow> error + (Paginator option \<times> string option)"
  connBatchExecuteStatement :: "string list \<Rightarrow> error + SubStatementData list"

text \<open>
  \<open>redshiftDataConn\<close>, with the store of delayed results (\<open>heap\<close>; a new cell gets the
  address \<open>length heap\<close>) and the record of remote calls. \<open>aliveChClosed\<close> says that
  \<open>aliveCh\<close> has been closed.
\<close>

record redshiftDataConn =
  cfg :: RedshiftDataConfig
  aliveChClosed :: bool
  isClosed :: bool
  inTx :: bool
  txOpts :: TxOptions
  sqls :: "string list"
  delayedResult :: "addr option list"
  heap :: "Result list"
  calls :: "remote_call list"

definition NewConnection :: "RedshiftDataConfig \<Rightarrow> redshiftDataConn" where
  "NewConnection c =
     \<lparr>cfg = c, aliveChClosed = False, isClosed = False, inTx = False, txOpts = TxOptions0,
      sqls = [], delayedResult = [], heap = [], calls = []\<rparr>"

section \<open>Operations of the connection\<close>

definition PrepareContext :: "redshiftDataConn \<Rightarrow> string \<Rightarrow> redshiftDataConn \<times> unit outcome" where
  "PrepareContext conn query = (conn, Err (Wrapf ''prepared statment '' ErrNotSupported))"

definition Close :: "redshiftDataConn \<Rightarrow> redshiftDataConn \<times> unit outcome" where
  "Close conn =
     (if isClosed conn then (conn, Ok ())
      else (conn\<lparr>isClosed := True, aliveChClosed := True\<rparr>, Ok ()))"

text \<open>The closure \<open>cleanup\<close> of \<open>BeginTx\<close>.\<close>

definition cleanup :: "redshiftDataConn \<Rightarrow> redshiftDataConn \<times> unit outcome" where
  "cleanup conn =
     (conn\<lparr>inTx := False, txOpts := TxOptions0, sqls := [], delayedResult := []\<rparr>, Ok ())"

text \<open>
  \<open>BeginTx\<close> returns a transaction handle whose two closures act on the connection;
  they are \<open>OnRollback\<close> and \<open>OnCommit\<close> below, and the handle itself carries nothing.
\<close>

definition BeginTx :: "redshiftDataConn \<Rightarrow> TxOptions \<Rightarrow> redshiftDataConn \<times> unit outcome" where
  "BeginTx conn opts =
     (if inTx conn then (conn, Err ErrInTx)
      else if Isolation opts \<noteq> LevelDefault then
        (conn, Err (Wrapf ''isolation level '' ErrNotSupported))
      else (conn\<lparr>inTx := True, txOpts := opts\<rparr>, Ok ()))"

definition OnRollback :: "redshiftDataConn \<Rightarrow> redshiftDataConn \<times> unit outcome" where
  "OnRollback conn =
     (if \<not> inTx conn then (conn, Err ErrNotInTx)
      else (case cleanup conn of
              (conn1, Err e) \<Rightarrow> (conn1, Err (Wrapf ''rollback error : '' e))
            | (conn1, Panic m) \<Rightarrow> (conn1, Panic m)
            | (conn1, Ok u) \<Rightarrow> (conn1, Ok ())))"

text \<open>
  \<open>executeStatement\<close> after \<open>waitWithCancel\<close> has returned a description (lines 271 to
  288): the mapping of the status. \<open>*describeOutput.Error\<close> and
  \<open>*describeOutput.HasResultSet\<close> dereference pointers, which panics on \<open>nil\<close>.
\<close>

definition afterWait ::
  "string option \<Rightarrow> DescribeStatementOutput \<Rightarrow> (Paginator option \<times> DescribeStatementOutput) outcome" where
  "afterWait execId describeOutput =
     (if Status describeOutput = StatusStringAborted then
        (case Error describeOutput of
           None \<Rightarrow> Panic ''nil pointer dereference''
         | Some msg \<Rightarrow> Err (Errorf (''query aborted: '' @ msg)))
      else if Status describeOutput = StatusStringFailed then
        (case Error describeOutput of
           None \<Rightarrow> Panic ''nil pointer dereference''
         | Some msg \<Rightarrow> Err (Errorf (''query failed: '' @ msg)))
      else if Status describeOutput \<noteq> StatusStringFinished then
        Err (Errorf (''query status is not finished: '' @ Status describeOutput))
      else
        (case HasResultSet describeOutput of
           None \<Rightarrow> Panic ''nil pointer dereference''
         | Some False \<Rightarrow> Ok (None, describeOutput)
         | Some True \<Rightarrow> Ok (Some (GetStatementResultPaginator execId), describeOutput)))"

text \<open>The five assignments from \<open>conn.cfg\<close> at the head of \<open>executeStatement\<close>.\<close>

definition sessionTarget :: "redshiftDataConn \<Rightarrow> ExecuteStatementInput \<Rightarrow> ExecuteStatementInput" where
  "sessionTarget conn params =
     params\<lparr>ClusterIdentifier := cfgClusterIdentifier (cfg conn),
            Database := cfgDatabase (cfg conn),
            DbUser := cfgDBUser (cfg conn),
            SecretArn := cfgSecretsArn (cfg conn),
            WorkgroupName := cfgWorkgroupName (cfg conn)\<rparr>"

definition executeStatement ::
  "env \<Rightarrow> redshiftDataConn \<Rightarrow> ExecuteStatementInput \<Rightarrow>
   redshiftDataConn \<times> (Paginator option \<times> DescribeStatementOutput) outcome" where
  "executeStatement e conn params =
     (let params1 = sessionTarget conn params;
          conn1 = conn\<lparr>calls := calls conn @ [CallClientExecuteStatement params1]\<rparr>
      in case clientExecuteStatement e params1 of
           Inl err \<Rightarrow> (conn1, Err (Wrapf ''execute statement error: '' err))
         | Inr execId \<Rightarrow>
             (let conn2 = conn1\<lparr>calls := calls conn1 @ [CallWaitWithCancel execId]\<rparr>
              in case waitWithCancel e execId of
                   Inl err \<Rightarrow> (conn2, Err err)
                 | Inr describeOutput \<Rightarrow> (conn2, afterWait execId describeOutput)))"

definition statementInput :: "string \<Rightarrow> NamedValue list \<Rightarrow> ExecuteStatementInput" where
  "statementInput query args =
     \<lparr>Sql = Nullif (rewriteQuery query (length args)),
      Parameters = convertArgsToParameters args,
      ClusterIdentifier = None, Database = None, DbUser = None, SecretArn = None,
      WorkgroupName = None\<rparr>"

definition QueryContext ::
  "env \<Rightarrow> redshiftDataConn \<Rightarrow> string \<Rightarrow> NamedValue list \<Rightarrow> redshiftDataConn \<times> Rows outcome" where
  "QueryContext e conn query args =
     (if inTx conn then (conn, Err ErrInTx)
      else
        (let params = statementInput query args;
             conn1 = conn\<lparr>calls := calls conn @ [CallConnExecuteStatement params]\<rparr>
         in case connExecuteStatement e params of
              Inl err \<Rightarrow> (conn1, Err err)
            | Inr (p, outputID) \<Rightarrow> (conn1, Ok (NewRows (Coalesce [outputID]) p))))"

text \<open>
  \<open>ExecContext\<close>. In a transaction it allocates two delayed results: \<open>result\<close>, which
  it appends to \<open>conn.delayedResult\<close>, and the one of the \<open>return\<close> statement.
\<close>

definition ExecContext ::
  "env \<Rightarrow> redshiftDataConn \<Rightarrow> string \<Rightarrow> NamedValue list \<Rightarrow> redshiftDataConn \<times> Result outcome" where
  "ExecContext e conn query args =
     (if inTx conn then
        (if length args > 0 then
           (conn, Err (Wrapf ''exec with args in transaction: '' ErrNotSupported))
         else if ReadOnly (txOpts conn) then
           (conn, Err (Wrapf ''exec in read only transaction: '' ErrNotSupported))
         else
           (let conn1 = conn\<lparr>sqls := sqls conn @ [query]\<rparr>;
                result = length (heap conn1);
                conn2 = conn1\<lparr>heap := heap conn1 @ [NilResult]\<rparr>;
                conn3 = conn2\<lparr>delayedResult := delayedResult conn2 @ [Some result]\<rparr>;
                returned = length (heap conn3);
                conn4 = conn3\<lparr>heap := heap conn3 @ [NilResult]\<rparr>
            in (conn4, Ok (DelayedResult returned))))
      else
        (case executeStatement e conn (statementInput query args) of
           (conn1, Err err) \<Rightarrow> (conn1, Err err)
         | (conn1, Panic m) \<Rightarrow> (conn1, Panic m)
         | (conn1, Ok (p, output)) \<Rightarrow> (conn1, Ok (NewResult output))))"

text \<open>
  The loop of \<open>OnCommit\<close> over the indexes of \<open>input.Sqls\<close>: it returns at the first
  index the response does not have, and stores a result through each pointer that is not
  \<open>nil\<close>. It runs after the two lengths were found equal, so \<open>delayedResult ! i\<close> is in
  range.
\<close>

fun resolveLoop ::
  "nat list \<Rightarrow> SubStatementData list \<Rightarrow> redshiftDataConn \<Rightarrow> redshiftDataConn \<times> error option" where
  "resolveLoop [] subStatements conn = (conn, None)"
| "resolveLoop (i # is) subStatements conn =
     (if i \<ge> length subStatements then
        (conn, Some (Errorf (''sub statement not found: '' @ decimal i)))
      else
        resolveLoop is subStatements
          (case delayedResult conn ! i of
             None \<Rightarrow> conn
           | Some p \<Rightarrow>
               conn\<lparr>heap := (heap conn)[p := NewResultWithSubStatementData (subStatements ! i)]\<rparr>))"

definition OnCommit :: "env \<Rightarrow> redshiftDataConn \<Rightarrow> redshiftDataConn \<times> unit outcome" where
  "OnCommit e conn =
     (if \<not> inTx conn then (conn, Err ErrNotInTx)
      else if length (sqls conn) = 0 then cleanup conn
      else if length (sqls conn) \<noteq> length (delayedResult conn) then
        (conn, Panic (''unexpected length of sqls and delayedResult: ''
                      @ decimal (length (sqls conn)) @ '' != ''
                      @ decimal (length (delayedResult conn))))
      else if length (sqls conn) = 1 then
        (case ExecContext e conn (sqls conn ! 0) [] of
           (conn1, Err err) \<Rightarrow> (conn1, Err (Wrapf ''commit error: '' err))
         | (conn1, Panic m) \<Rightarrow> (conn1, Panic m)
         | (conn1, Ok res) \<Rightarrow>
             (case delayedResult conn1 ! 0 of
                None \<Rightarrow> (conn1, Ok ())
              | Some p \<Rightarrow> (conn1\<lparr>heap := (heap conn1)[p := res]\<rparr>, Ok ())))
      else
        (let inputSqls = sqls conn;
             conn1 = conn\<lparr>calls := calls conn @ [CallBatchExecuteStatement inputSqls]\<rparr>
         in case connBatchExecuteStatement e inputSqls of
              Inl err \<Rightarrow> (conn1, Err err)
            | Inr subStatements \<Rightarrow>
                (case resolveLoop [0..<length inputSqls] subStatements conn1 of
                   (conn2, Some err) \<Rightarrow> (conn2, Err err)
                 | (conn2, None) \<Rightarrow> cleanup conn2)))"

text \<open>
  The store after the loop has written the results for the indexes \<open>is\<close>, in order,
  through the pointers \<open>ptrs\<close>: what the loop has done to the delayed results when it
  returns.
\<close>

fun storeResults ::
  "nat list \<Rightarrow> SubStatementData list \<Rightarrow> addr option list \<Rightarrow> Result list \<Rightarrow> Result list" where
  "storeResults [] subStatements ptrs h = h"
| "storeResults (i # is) subStatements ptrs h =
     storeResults is subStatements ptrs
       (case ptrs ! i of
          None \<Rightarrow> h
        | Some p \<Rightarrow> h[p := NewResultWithSubStatementData (subStatements ! i)])"

section \<open>Runs of the connection\<close>

text \<open>
  The calls a user of the connection can make, and the states they lead to from a new
  connection, whatever the collaborators answer at each call.
\<close>

datatype operation =
    OpPrepare string
  | OpClose
  | OpBegin TxOptions
  | OpQuery string "NamedValue list"
  | OpExec string "NamedValue list"
  | OpCommit
  | OpRollback

fun perform :: "env \<Rightarrow> operation \<Rightarrow> redshiftDataConn \<Rightarrow> redshiftDataConn" where
  "perform e (OpPrepare query) conn = fst (PrepareContext conn query)"
| "perform e OpClose conn = fst (Close conn)"
| "perform e (OpBegin opts) conn = fst (BeginTx conn opts)"
| "perform e (OpQuery query args) conn = fst (QueryContext e conn query args)"
| "perform e (OpExec query args) conn = fst (ExecContext e conn query args)"
| "perform e OpCommit conn = fst (OnCommit e conn)"
| "perform e OpRollback conn = fst (OnRollback conn)"

inductive reachable :: "redshiftDataConn \<Rightarrow> bool" where
  reachable_new: "reachable (NewConnection c)"
| reachable_step: "reachable conn \<Longrightarrow> reachable (perform e op conn)"

section \<open>The rewriter as the specification words it\<close>

text \<open>
  The specification (4.1) describes the scan in three cases. Inside an open quote a
  character is copied, and the character matching the top of the quote stack pops it;
  outside any open quote \<open>?\<close> becomes the next positional marker, \<open>$\<close> becomes \<open>:\<close>,
  and a quote character is pushed. \<open>spec_rewriteQuery\<close> follows these words, to be
  compared with \<^const>\<open>rewriteQuery\<close>.
\<close>

definition spec_rewriteStep :: "rewriter \<Rightarrow> char \<Rightarrow> rewriter" where
  "spec_rewriteStep st r =
     (if stack st \<noteq> [] then
        (if r = last (stack st)
         then st\<lparr>stack := butlast (stack st), runes := runes st @ [r]\<rparr>
         else st\<lparr>runes := runes st @ [r]\<rparr>)
      else if r = CHR ''?'' then
        st\<lparr>exclamationCount := exclamationCount st + 1,
           runes := runes st @ '':'' @ decimal (exclamationCount st + 1)\<rparr>
      else if r = CHR ''$'' then
        st\<lparr>runes := runes st @ '':''\<rparr>
      else if r = dquote \<or> r = squote then
        st\<lparr>stack := stack st @ [r], runes := runes st @ [r]\<rparr>
      else st\<lparr>runes := runes st @ [r]\<rparr>)"

definition spec_rewriteQuery :: "string \<Rightarrow> nat \<Rightarrow> string" where
  "spec_rewriteQuery query paramsCount =
     (if paramsCount = 0 then query else runes (foldl spec_rewriteStep rewriter0 query))"

section \<open>The rewriter, position by position\<close>

text \<open>
  The quote stack of the source on its own: a rune equal to the top pops it, any other
  quote rune is pushed (also inside an open quote), and every other rune leaves the
  stack as it is. \<open>openQuotes q\<close> is the stack after the runes of \<open>q\<close>.
\<close>

definition quoteStep :: "string \<Rightarrow> char \<Rightarrow> string" where
  "quoteStep stk r =
     (if stk \<noteq> [] \<and> r = last stk then butlast stk
      else if r = dquote \<or> r = squote then stk @ [r]
      else stk)"

definition openQuotes :: "string \<Rightarrow> string" where
  "openQuotes q = foldl quoteStep [] q"

text \<open>
  Position \<open>i\<close> of \<open>q\<close> is bare when no quote is open after the runes before it;
  \<open>bareMarks q i\<close> counts the bare \<open>?\<close> before position \<open>i\<close>; \<open>rewrittenAt q i\<close> is
  what the rune at position \<open>i\<close> becomes.
\<close>

definition bare :: "string \<Rightarrow> nat \<Rightarrow> bool" where
  "bare q i = (openQuotes (take i q) = [])"

definition bareMarks :: "string \<Rightarrow> nat \<Rightarrow> nat" where
  "bareMarks q i = length (filter (\<lambda>j. q ! j = CHR ''?'' \<and> bare q j) [0..<i])"

definition rewrittenAt :: "string \<Rightarrow> nat \<Rightarrow> string" where
  "rewrittenAt q i =
     (if bare q i \<and> q ! i = CHR ''?'' then '':'' @ decimal (Suc (bareMarks q i))
      else if bare q i \<and> q ! i = CHR ''$'' then '':''
      else [q ! i])"

section \<open>Sample inputs\<close>

definition config0 :: RedshiftDataConfig where
  "config0 = \<lparr>cfgClusterIdentifier = None, cfgDatabase = Some ''dev'', cfgDBUser = None,
              cfgSecretsArn = None, cfgWorkgroupName = Some ''default''\<rparr>"

text \<open>
  Collaborators whose statements finish at once with one affected row, and whose batch
  answers with the descriptors \<open>subs\<close>.
\<close>

definition finished1 :: DescribeStatementOutput where
  "finished1 = \<lparr>Status = ''FINISHED'', Error = None, HasResultSet = Some False, ResultRows = 1\<rparr>"

definition envBatch :: "SubStatementData list \<Rightarrow> env" where
  "envBatch subs =
     \<lparr>clientExecuteStatement = (\<lambda>i. Inr (Some ''id-1'')),
      waitWithCancel = (\<lambda>i. Inr finished1),
      connExecuteStatement = (\<lambda>i. Inr (None, Some ''id-1'')),
      connBatchExecuteStatement = (\<lambda>i. Inr subs)\<rparr>"

text \<open>Collaborators whose wait returns the description \<open>d\<close>.\<close>

definition envDescribe :: "DescribeStatementOutput \<Rightarrow> env" where
  "envDescribe d =
     \<lparr>clientExecuteStatement = (\<lambda>i. Inr (Some ''id-1'')),
      waitWithCancel = (\<lambda>i. Inr d),
      connExecuteStatement = (\<lambda>i. Inr (None, Some ''id-1'')),
      connBatchExecuteStatement = (\<lambda>i. Inr [])\<rparr>"

text \<open>Descriptions a wait can return: aborted, failed, still started.\<close>

definition abortedD :: DescribeStatementOutput where
  "abortedD = \<lparr>Status = ''ABORTED'', Error = Some ''cancelled by user'',
               HasResultSet = Some False, ResultRows = 0\<rparr>"

definition failedD :: DescribeStatementOutput where
  "failedD = \<lparr>Status = ''FAILED'', Error = Some ''relation t does not exist'',
              HasResultSet = Some False, ResultRows = 0\<rparr>"

text \<open>An aborted and a failed description whose \<open>Error\<close> is \<open>nil\<close>.\<close>

definition abortedNoMessage :: DescribeStatementOutput where
  "abortedNoMessage = \<lparr>Status = ''ABORTED'', Error = None,
                       HasResultSet = Some False, ResultRows = 0\<rparr>"

definition failedNoMessage :: DescribeStatementOutput where
  "failedNoMessage = \<lparr>Status = ''FAILED'', Error = None,
                      HasResultSet = Some False, ResultRows = 0\<rparr>"

definition startedD :: DescribeStatementOutput where
  "startedD = \<lparr>Status = ''STARTED'', Error = None, HasResultSet = None, ResultRows = 0\<rparr>"

text \<open>A new connection, and the connection after \<open>Begin\<close> and after one or two \<open>Exec\<close>.\<close>

definition connNew :: redshiftDataConn where
  "connNew = NewConnection config0"

definition connBegun :: redshiftDataConn where
  "connBegun = perform (envBatch []) (OpBegin TxOptions0) connNew"

definition connOne :: redshiftDataConn where
  "connOne = perform (envBatch []) (OpExec ''INSERT INTO t VALUES (1)'' []) connBegun"

definition connTwo :: redshiftDataConn where
  "connTwo = perform (envBatch []) (OpExec ''INSERT INTO t VALUES (2)'' []) connOne"

text \<open>The connection after \<open>Begin\<close> of a read-only transaction.\<close>

definition connReadOnly :: redshiftDataConn where
  "connReadOnly = perform (envBatch []) (OpBegin \<lparr>Isolation = 0, ReadOnly = True\<rparr>) connNew"

definition optsSerializable :: TxOptions where
  "optsSerializable = \<lparr>Isolation = 6, ReadOnly = False\<rparr>"

definition arg1 :: NamedValue where
  "arg1 = \<lparr>argName = [], argOrdinal = 1, argValue = ''42''\<rparr>"

section \<open>Facts about the rewriter\<close>

lemmas rewriter_defs =
  rewriteQuery_def rewriteLoop_def rewriteStep_def pushAndCopy_def rewriter0_def

lemma rewriteLoop_snoc: "rewriteLoop (q @ [r]) = rewriteStep (rewriteLoop q) r"
  by (simp add: rewriteLoop_def)

text \<open>
  C4, as the source has it. For every query and \<open>paramsCount > 0\<close>: when the quote stack
  is not empty after the runes \<open>pre\<close>, the next rune \<open>r\<close> is copied to the output as it
  is and the count of markers does not change; the stack is popped when \<open>r\<close> equals its
  top, it gets \<open>r\<close> pushed when \<open>r\<close> is a quote rune other than its top, and it is
  unchanged for every other rune.
\<close>

theorem inside_quote_step:
  assumes "0 < paramsCount" and "stack (rewriteLoop pre) \<noteq> []"
  shows "rewriteQuery (pre @ [r]) paramsCount = rewriteQuery pre paramsCount @ [r] \<and>
         exclamationCount (rewriteLoop (pre @ [r])) = exclamationCount (rewriteLoop pre) \<and>
         stack (rewriteLoop (pre @ [r])) =
           (if r = last (stack (rewriteLoop pre)) then butlast (stack (rewriteLoop pre))
            else if r = dquote \<or> r = squote then stack (rewriteLoop pre) @ [r]
            else stack (rewriteLoop pre))"
  using assms
  by (simp add: rewriteQuery_def rewriteLoop_snoc rewriteStep_def pushAndCopy_def Let_def)

text \<open>
  The theorem at the query \<open>'"\<close>: inside the open single quote the double quote is
  copied and pushed.
\<close>

theorem inside_quote_step_witness:
  "(0::nat) < 1 \<and> stack (rewriteLoop [squote]) \<noteq> [] \<and>
   rewriteQuery ([squote] @ [dquote]) 1 = rewriteQuery [squote] 1 @ [dquote] \<and>
   exclamationCount (rewriteLoop ([squote] @ [dquote])) = exclamationCount (rewriteLoop [squote]) \<and>
   stack (rewriteLoop ([squote] @ [dquote])) = [squote, dquote]"
  using inside_quote_step [of 1 "[squote]" dquote]
  by (simp add: rewriter_defs)

text \<open>
  C4 as the specification states it fails: after \<open>'\<close> the stack is \<open>'\<close>, the rune \<open>"\<close>
  is not its top, and yet after \<open>'"\<close> the stack holds both. So in \<open>'"' ?\<close> the third
  rune does not close the quote, and the \<open>?\<close> stays as it is.
\<close>

theorem inside_quote_push_counterexample:
  "stack (rewriteLoop [squote]) = [squote] \<and>
   dquote \<noteq> last (stack (rewriteLoop [squote])) \<and>
   stack (rewriteLoop [squote, dquote]) = [squote, dquote] \<and>
   rewriteQuery [squote, dquote, squote, CHR '' '', CHR ''?''] 1
     = [squote, dquote, squote, CHR '' '', CHR ''?'']"
  by (simp add: rewriter_defs)

text \<open>
  The quote stack of the loop is \<^const>\<open>openQuotes\<close>, its count is the number of bare
  \<open>?\<close> seen, and its output is built position by position.
\<close>

lemma stack_openQuotes: "stack (rewriteLoop q) = openQuotes q"
proof (induction q rule: rev_induct)
  case Nil
  show ?case by (simp add: rewriteLoop_def openQuotes_def rewriter0_def)
next
  case (snoc r q)
  have "openQuotes (q @ [r]) = quoteStep (openQuotes q) r"
    by (simp add: openQuotes_def)
  with snoc show ?case
    by (simp add: rewriteLoop_snoc rewriteStep_def pushAndCopy_def quoteStep_def Let_def)
qed

lemma bare_append: "i \<le> length q \<Longrightarrow> bare (q @ rs) i = bare q i"
  by (simp add: bare_def)

lemma bareMarks_append: "i \<le> length q \<Longrightarrow> bareMarks (q @ rs) i = bareMarks q i"
  unfolding bareMarks_def
  by (rule arg_cong[where f=length], rule filter_cong) (auto simp: bare_append nth_append)

lemma rewrittenAt_append: "i < length q \<Longrightarrow> rewrittenAt (q @ rs) i = rewrittenAt q i"
  by (simp add: rewrittenAt_def bare_append bareMarks_append nth_append)

lemma count_bareMarks: "exclamationCount (rewriteLoop q) = bareMarks q (length q)"
proof (induction q rule: rev_induct)
  case Nil
  show ?case by (simp add: rewriteLoop_def bareMarks_def rewriter0_def)
next
  case (snoc r q)
  have a: "bareMarks (q @ [r]) (length q) = bareMarks q (length q)"
    by (simp add: bareMarks_append)
  have b: "bareMarks (q @ [r]) (Suc (length q)) =
      bareMarks (q @ [r]) (length q) + (if r = CHR ''?'' \<and> bare q (length q) then 1 else 0)"
    by (simp add: bareMarks_def bare_append)
  have c: "bare q (length q) = (stack (rewriteLoop q) = [])"
    by (simp add: bare_def stack_openQuotes)
  show ?case using snoc a b c
    by (auto simp add: rewriteLoop_snoc rewriteStep_def pushAndCopy_def Let_def)
qed

lemma runes_rewrittenAt: "runes (rewriteLoop q) = concat (map (rewrittenAt q) [0..<length q])"
proof (induction q rule: rev_induct)
  case Nil
  show ?case by (simp add: rewriteLoop_def rewriter0_def)
next
  case (snoc r q)
  have a: "map (rewrittenAt (q @ [r])) [0..<length q] = map (rewrittenAt q) [0..<length q]"
    by (rule map_cong) (auto simp: rewrittenAt_append)
  have c: "bare (q @ [r]) (length q) = (stack (rewriteLoop q) = [])"
    by (simp add: bare_def stack_openQuotes)
  have d: "bareMarks (q @ [r]) (length q) = exclamationCount (rewriteLoop q)"
    by (simp add: bareMarks_append count_bareMarks)
  have e: "rewrittenAt (q @ [r]) (length q) =
     (if stack (rewriteLoop q) = [] \<and> r = CHR ''?''
      then '':'' @ decimal (Suc (exclamationCount (rewriteLoop q)))
      else if stack (rewriteLoop q) = [] \<and> r = CHR ''$'' then '':'' else [r])"
    by (simp only: rewrittenAt_def c d nth_append_length)
  have f: "runes (rewriteStep (rewriteLoop q) r) =
      runes (rewriteLoop q) @ rewrittenAt (q @ [r]) (length q)"
    unfolding e by (auto simp add: rewriteStep_def pushAndCopy_def Let_def)
  have "runes (rewriteLoop (q @ [r])) = runes (rewriteLoop q) @ rewrittenAt (q @ [r]) (length q)"
    by (simp only: rewriteLoop_snoc f)
  also have "\<dots> = concat (map (rewrittenAt q) [0..<length q]) @ rewrittenAt (q @ [r]) (length q)"
    by (simp only: snoc)
  also have "\<dots> = concat (map (rewrittenAt (q @ [r])) [0..<length q])
      @ rewrittenAt (q @ [r]) (length q)"
    by (simp only: a)
  also have "\<dots> = concat (map (rewrittenAt (q @ [r])) [0..<length (q @ [r])])"
    by simp
  finally show ?case .
qed

text \<open>
  C5, as the source has it. For every query and \<open>paramsCount > 0\<close> the rewritten string
  is the query with each rune replaced by its own piece, in order: a \<open>?\<close> met while the
  quote stack is empty becomes \<open>:\<close> and its 1-based rank among such \<open>?\<close>, a \<open>$\<close> met
  while the stack is empty becomes \<open>:\<close>, and every other rune (a \<open>?\<close> or \<open>$\<close> inside an
  open quote, the digits after a \<open>$\<close>) is copied. The quote stack is the one of the
  source, in which a quote rune of the other kind nests inside an open quote.
\<close>

theorem rewriteQuery_positions:
  "0 < paramsCount \<Longrightarrow>
   rewriteQuery q paramsCount = concat (map (rewrittenAt q) [0..<length q])"
  by (simp add: rewriteQuery_def runes_rewrittenAt)

text \<open>
  The theorem at \<open>a = ? AND b = '?$' OR c = $1 ?\<close>: the two bare \<open>?\<close> become \<open>:1\<close>
  and \<open>:2\<close>, \<open>$1\<close> becomes \<open>:1\<close>, and the quoted \<open>?$\<close> stays.
\<close>

theorem rewriteQuery_positions_witness:
  "(0::nat) < 1 \<and>
   rewriteQuery (''a = ? AND b = '' @ [squote] @ ''?$'' @ [squote] @ '' OR c = $1 ?'') 1
     = concat (map (rewrittenAt (''a = ? AND b = '' @ [squote] @ ''?$'' @ [squote] @ '' OR c = $1 ?''))
         [0..<length (''a = ? AND b = '' @ [squote] @ ''?$'' @ [squote] @ '' OR c = $1 ?'')]) \<and>
   rewriteQuery (''a = ? AND b = '' @ [squote] @ ''?$'' @ [squote] @ '' OR c = $1 ?'') 1
     = ''a = :1 AND b = '' @ [squote] @ ''?$'' @ [squote] @ '' OR c = :1 :2''"
proof -
  have h: "(0::nat) < 1" by simp
  have v: "rewriteQuery (''a = ? AND b = '' @ [squote] @ ''?$'' @ [squote] @ '' OR c = $1 ?'') 1
     = ''a = :1 AND b = '' @ [squote] @ ''?$'' @ [squote] @ '' OR c = :1 :2''"
    by (simp add: rewriter_defs decimal.simps)
  show ?thesis
    using h v
      rewriteQuery_positions [OF h, of "''a = ? AND b = '' @ [squote] @ ''?$'' @ [squote] @ '' OR c = $1 ?''"]
    by simp
qed

text \<open>
  C5 as the specification states it fails. In \<open>"it's" = ?\<close> the quoted identifier ends
  at the second \<open>"\<close>, so by the specification's account of quoting the \<open>?\<close> is bare and
  becomes \<open>:1\<close>; the source pushes the \<open>'\<close> met inside the double quote, never comes
  back to an empty stack, and leaves the \<open>?\<close>.
\<close>

theorem rewriteQuery_nested_quote_counterexample:
  "spec_rewriteQuery ([dquote] @ ''it'' @ [squote] @ ''s'' @ [dquote] @ '' = ?'') 1
     = [dquote] @ ''it'' @ [squote] @ ''s'' @ [dquote] @ '' = :1'' \<and>
   rewriteQuery ([dquote] @ ''it'' @ [squote] @ ''s'' @ [dquote] @ '' = ?'') 1
     = [dquote] @ ''it'' @ [squote] @ ''s'' @ [dquote] @ '' = ?''"
  by (simp add: rewriter_defs spec_rewriteQuery_def spec_rewriteStep_def decimal.simps)

section \<open>Facts about the connection\<close>

lemmas sample_defs =
  connNew_def connBegun_def connOne_def connTwo_def connReadOnly_def
  NewConnection_def config0_def envBatch_def envDescribe_def finished1_def TxOptions0_def
  optsSerializable_def arg1_def LevelDefault_def

lemmas operation_defs =
  PrepareContext_def Close_def cleanup_def BeginTx_def OnRollback_def
  QueryContext_def ExecContext_def OnCommit_def

lemma connBegun_eq: "connBegun = connNew\<lparr>inTx := True\<rparr>"
  by (simp add: sample_defs operation_defs)

lemma connOne_eq:
  "connOne = connNew\<lparr>inTx := True, sqls := [''INSERT INTO t VALUES (1)''],
     delayedResult := [Some 0], heap := [NilResult, NilResult]\<rparr>"
  by (simp add: sample_defs operation_defs Let_def)

lemma connTwo_eq:
  "connTwo = connNew\<lparr>inTx := True,
     sqls := [''INSERT INTO t VALUES (1)'', ''INSERT INTO t VALUES (2)''],
     delayedResult := [Some 0, Some 2], heap := [NilResult, NilResult, NilResult, NilResult]\<rparr>"
  by (simp add: sample_defs operation_defs Let_def)

subsection \<open>Exec inside a transaction\<close>

text \<open>
  Whatever the connection, an \<open>Exec\<close> without arguments in a transaction that is not
  read-only buffers the statement with a pointer to the cell allocated first, and hands
  the caller a pointer to the cell allocated second.
\<close>

lemma ExecContext_in_tx:
  assumes "inTx conn" and "\<not> ReadOnly (txOpts conn)"
  shows "snd (ExecContext e conn query []) = Ok (DelayedResult (Suc (length (heap conn)))) \<and>
         sqls (fst (ExecContext e conn query [])) = sqls conn @ [query] \<and>
         delayedResult (fst (ExecContext e conn query [])) =
           delayedResult conn @ [Some (length (heap conn))] \<and>
         calls (fst (ExecContext e conn query [])) = calls conn \<and>
         inTx (fst (ExecContext e conn query []))"
  using assms by (simp add: ExecContext_def Let_def)

text \<open>
  C2 at a failing input: \<open>Begin\<close>, then \<open>Exec("INSERT INTO t VALUES (1)")\<close>. The
  statement is buffered with the delayed result at address 0, and the caller gets the
  delayed result at address 1. After a second \<open>Exec\<close> and a commit whose batch reports 7
  and 8 rows, the buffered cells 0 and 2 hold the counts and the callers' cells 1 and 3
  are still empty.
\<close>

theorem exec_in_tx_returns_other_result:
  "snd (ExecContext (envBatch []) connBegun ''INSERT INTO t VALUES (1)'' [])
     = Ok (DelayedResult 1) \<and>
   delayedResult (fst (ExecContext (envBatch []) connBegun ''INSERT INTO t VALUES (1)'' []))
     = [Some 0] \<and>
   snd (OnCommit (envBatch [\<lparr>subResultRows = 7\<rparr>, \<lparr>subResultRows = 8\<rparr>]) connTwo) = Ok () \<and>
   heap (fst (OnCommit (envBatch [\<lparr>subResultRows = 7\<rparr>, \<lparr>subResultRows = 8\<rparr>]) connTwo))
     = [RedshiftDataResult 7, NilResult, RedshiftDataResult 8, NilResult]"
  by (simp add: connBegun_eq connTwo_eq connNew_def NewConnection_def OnCommit_def
      ExecContext_def Let_def TxOptions0_def envBatch_def cleanup_def upt_rec
      NewResultWithSubStatementData_def)

subsection \<open>Commit\<close>

text \<open>
  Whatever the connection and the collaborators: a commit with exactly one buffered
  statement, in a transaction that is not read-only, makes no remote call, stays in the
  transaction and buffers the statement a second time.
\<close>

lemma OnCommit_single:
  assumes "inTx conn" and "\<not> ReadOnly (txOpts conn)"
    and "sqls conn = [query]" and "delayedResult conn = [p]"
  shows "snd (OnCommit e conn) = Ok () \<and>
         inTx (fst (OnCommit e conn)) \<and>
         sqls (fst (OnCommit e conn)) = [query, query] \<and>
         calls (fst (OnCommit e conn)) = calls conn"
  using assms by (cases p) (simp_all add: OnCommit_def ExecContext_def Let_def)

text \<open>
  C1 at a failing input: \<open>Begin\<close>, \<open>Exec("INSERT INTO t VALUES (1)")\<close>, \<open>Commit\<close>, with
  collaborators that would report one affected row. The commit returns \<open>nil\<close>; the
  connection is still in the transaction, the statement is buffered twice, no remote
  call was made, and the first delayed result holds a pointer to a new, empty delayed
  result.
\<close>

theorem commit_single_statement_rebuffers:
  "snd (OnCommit (envBatch []) connOne) = Ok () \<and>
   inTx (fst (OnCommit (envBatch []) connOne)) = True \<and>
   sqls (fst (OnCommit (envBatch []) connOne))
     = [''INSERT INTO t VALUES (1)'', ''INSERT INTO t VALUES (1)''] \<and>
   delayedResult (fst (OnCommit (envBatch []) connOne)) = [Some 0, Some 2] \<and>
   heap (fst (OnCommit (envBatch []) connOne))
     = [DelayedResult 3, NilResult, NilResult, NilResult] \<and>
   calls (fst (OnCommit (envBatch []) connOne)) = []"
  by (simp add: connOne_eq connNew_def NewConnection_def OnCommit_def ExecContext_def
      Let_def TxOptions0_def)

text \<open>
  A loop that meets an index \<open>k\<close> the response does not have, after indexes it does
  have, has written the results for those and returns the error for \<open>k\<close>.
\<close>

lemma resolveLoop_short:
  assumes "\<forall>i\<in>set xs. i < length subs" and "length subs \<le> k"
  shows "resolveLoop (xs @ k # ys) subs conn =
     (conn\<lparr>heap := storeResults xs subs (delayedResult conn) (heap conn)\<rparr>,
      Some (Errorf (''sub statement not found: '' @ decimal k)))"
  using assms
proof (induction xs arbitrary: conn)
  case Nil
  then show ?case by simp
next
  case (Cons x xs)
  then show ?case by (cases "delayedResult conn ! x") simp_all
qed

lemma upt_split: "k < n \<Longrightarrow> [0..<n] = [0..<k] @ k # [Suc k..<n]"
  by (metis upt_conv_Cons upt_add_eq_append le_add_diff_inverse less_imp_le zero_le)

text \<open>
  C3, as the source has it. For every transaction with two or more buffered statements
  and as many delayed results, when the batch response has \<open>k\<close> descriptors, fewer
  than the statements submitted: the commit returns the indexing error for index \<open>k\<close>;
  the one batch call is recorded; the delayed results at the indexes below \<open>k\<close> have
  been resolved, in order, each with its descriptor, and nothing else of the store is
  written; and the connection is otherwise as before: still in the transaction, with
  the same options and the same two buffers.
\<close>

theorem commit_short_batch:
  assumes "inTx conn" and "2 \<le> length (sqls conn)"
    and "length (delayedResult conn) = length (sqls conn)"
    and "connBatchExecuteStatement e (sqls conn) = Inr subs"
    and "length subs < length (sqls conn)"
  shows "OnCommit e conn =
     (conn\<lparr>calls := calls conn @ [CallBatchExecuteStatement (sqls conn)],
           heap := storeResults [0..<length subs] subs (delayedResult conn) (heap conn)\<rparr>,
      Err (Errorf (''sub statement not found: '' @ decimal (length subs))))"
proof -
  have "resolveLoop [0..<length (sqls conn)] subs
          (conn\<lparr>calls := calls conn @ [CallBatchExecuteStatement (sqls conn)]\<rparr>) =
     (conn\<lparr>calls := calls conn @ [CallBatchExecuteStatement (sqls conn)],
           heap := storeResults [0..<length subs] subs (delayedResult conn) (heap conn)\<rparr>,
      Some (Errorf (''sub statement not found: '' @ decimal (length subs))))"
    using resolveLoop_short [of "[0..<length subs]" subs "length subs"
        "[Suc (length subs)..<length (sqls conn)]"
        "conn\<lparr>calls := calls conn @ [CallBatchExecuteStatement (sqls conn)]\<rparr>"]
      upt_split [OF assms(5)]
    by simp
  moreover have "sqls conn \<noteq> []" and "length (sqls conn) \<noteq> Suc 0"
    using assms(2) by auto
  ultimately show ?thesis
    using assms(1,3,4) by (simp add: OnCommit_def Let_def)
qed

text \<open>
  The theorem at two buffered statements and a response with one descriptor of 7 rows.
\<close>

theorem commit_short_batch_witness:
  "inTx connTwo \<and> (2::nat) \<le> length (sqls connTwo) \<and>
   length (delayedResult connTwo) = length (sqls connTwo) \<and>
   connBatchExecuteStatement (envBatch [\<lparr>subResultRows = 7\<rparr>]) (sqls connTwo)
     = Inr [\<lparr>subResultRows = 7\<rparr>] \<and>
   length [\<lparr>subResultRows = 7\<rparr>] < length (sqls connTwo) \<and>
   OnCommit (envBatch [\<lparr>subResultRows = 7\<rparr>]) connTwo =
     (connTwo\<lparr>calls := [CallBatchExecuteStatement
                            [''INSERT INTO t VALUES (1)'', ''INSERT INTO t VALUES (2)'']],
              heap := [RedshiftDataResult 7, NilResult, NilResult, NilResult]\<rparr>,
      Err (Errorf ''sub statement not found: 1''))"
proof -
  have a: "inTx connTwo" by (simp add: connTwo_eq)
  have b: "2 \<le> length (sqls connTwo)" by (simp add: connTwo_eq)
  have c: "length (delayedResult connTwo) = length (sqls connTwo)" by (simp add: connTwo_eq)
  have d: "connBatchExecuteStatement (envBatch [\<lparr>subResultRows = 7\<rparr>]) (sqls connTwo)
      = Inr [\<lparr>subResultRows = 7\<rparr>]"
    by (simp add: envBatch_def)
  have f: "length [\<lparr>subResultRows = 7\<rparr>] < length (sqls connTwo)" by (simp add: connTwo_eq)
  show ?thesis
    using commit_short_batch [OF a b c d f] a b c d f
    by (simp add: connTwo_eq connNew_def NewConnection_def NewResultWithSubStatementData_def
        decimal.simps)
qed

text \<open>
  C3 as the specification states it fails. With two statements buffered and a batch
  response of one descriptor (7 rows), the commit returns the indexing error for index
  1, and the first delayed result has been resolved to 7 while the second has not; the
  connection is still in the transaction with both statements buffered.
\<close>

theorem commit_short_batch_counterexample:
  "snd (OnCommit (envBatch [\<lparr>subResultRows = 7\<rparr>]) connTwo)
     = Err (Errorf ''sub statement not found: 1'') \<and>
   delayedResult (fst (OnCommit (envBatch [\<lparr>subResultRows = 7\<rparr>]) connTwo))
     = [Some 0, Some 2] \<and>
   heap (fst (OnCommit (envBatch [\<lparr>subResultRows = 7\<rparr>]) connTwo))
     = [RedshiftDataResult 7, NilResult, NilResult, NilResult] \<and>
   inTx (fst (OnCommit (envBatch [\<lparr>subResultRows = 7\<rparr>]) connTwo)) = True \<and>
   sqls (fst (OnCommit (envBatch [\<lparr>subResultRows = 7\<rparr>]) connTwo))
     = [''INSERT INTO t VALUES (1)'', ''INSERT INTO t VALUES (2)'']"
  by (simp add: connTwo_eq connNew_def NewConnection_def OnCommit_def ExecContext_def
      Let_def TxOptions0_def envBatch_def cleanup_def upt_rec
      NewResultWithSubStatementData_def decimal.simps)

subsection \<open>Invariants of the reachable states\<close>

lemma resolveLoop_frame:
  "resolveLoop is subs conn = (conn', r) \<Longrightarrow>
     sqls conn' = sqls conn \<and> delayedResult conn' = delayedResult conn \<and> inTx conn' = inTx conn"
  by (induction "is" arbitrary: conn) (auto split: if_splits option.splits)

text \<open>
  Every operation keeps the two buffers equally long, and keeps them empty outside a
  transaction.
\<close>

lemma perform_invariant:
  assumes "length (sqls conn) = length (delayedResult conn)"
    and "\<not> inTx conn \<longrightarrow> sqls conn = []"
  shows "length (sqls (perform e op conn)) = length (delayedResult (perform e op conn)) \<and>
         (\<not> inTx (perform e op conn) \<longrightarrow> sqls (perform e op conn) = [])"
proof (cases op)
  case OpCommit
  show ?thesis
    using assms unfolding OpCommit
    by (auto simp add: OnCommit_def ExecContext_def cleanup_def Let_def
        split: prod.splits outcome.splits option.splits sum.splits if_splits
        dest: resolveLoop_frame)
next
  case (OpExec query args)
  show ?thesis
    using assms unfolding OpExec
    by (auto simp add: ExecContext_def executeStatement_def Let_def
        split: prod.splits outcome.splits sum.splits)
next
  case (OpQuery query args)
  show ?thesis
    using assms unfolding OpQuery
    by (auto simp add: QueryContext_def Let_def split: prod.splits sum.splits)
qed (use assms in \<open>auto simp add: operation_defs\<close>)

lemma reachable_invariant:
  "reachable conn \<Longrightarrow>
   length (sqls conn) = length (delayedResult conn) \<and> (\<not> inTx conn \<longrightarrow> sqls conn = [])"
proof (induction rule: reachable.induct)
  case (reachable_new c)
  show ?case by (simp add: NewConnection_def)
next
  case (reachable_step conn e op)
  then show ?case using perform_invariant [of conn e op] by blast
qed

lemma OnCommit_no_panic:
  "length (sqls conn) = length (delayedResult conn) \<Longrightarrow> snd (OnCommit e conn) \<noteq> Panic m"
  by (auto simp add: OnCommit_def ExecContext_def cleanup_def Let_def
      split: prod.splits outcome.splits option.splits sum.splits if_splits)

lemma reachable_connNew: "reachable connNew"
  unfolding connNew_def by (rule reachable.intros)

lemma reachable_connBegun: "reachable connBegun"
  unfolding connBegun_def connNew_def by (intro reachable.intros)

lemma reachable_connTwo: "reachable connTwo"
  unfolding connTwo_def connOne_def connBegun_def connNew_def by (intro reachable.intros)

text \<open>
  C8. In every state reached from a new connection by prepare, close, begin, query,
  exec, commit and rollback, with any answers of the collaborators, the buffer of
  statements and the buffer of delayed results have the same length, and no commit
  panics, whatever the collaborators answer: the mismatch check does not fire.
\<close>

theorem buffers_aligned:
  "reachable conn \<Longrightarrow>
   length (sqls conn) = length (delayedResult conn) \<and>
   (\<forall>e m. snd (OnCommit e conn) \<noteq> Panic m)"
  using reachable_invariant [of conn] OnCommit_no_panic [of conn] by blast

text \<open>The theorem at the connection after \<open>Begin\<close> and two \<open>Exec\<close>.\<close>

theorem buffers_aligned_witness:
  "reachable connTwo \<and> length (sqls connTwo) = 2 \<and> length (delayedResult connTwo) = 2 \<and>
   (\<forall>e m. snd (OnCommit e connTwo) \<noteq> Panic m)"
  using buffers_aligned [OF reachable_connTwo] reachable_connTwo
  by (simp add: connTwo_eq)

text \<open>
  The check is not idle: on a connection value whose buffers differ in length the commit
  panics (such a value is not reachable).
\<close>

lemma OnCommit_mismatch_panics:
  "snd (OnCommit (envBatch []) (connOne\<lparr>delayedResult := []\<rparr>))
     = Panic ''unexpected length of sqls and delayedResult: 1 != 0''"
  by (simp add: connOne_eq connNew_def NewConnection_def OnCommit_def decimal.simps)

subsection \<open>Begin\<close>

text \<open>
  C6. In every reachable state: \<open>BeginTx\<close> fails with \<open>ErrInTx\<close> whenever a
  transaction is active; it fails whenever the options ask for an isolation level other
  than the default, with the isolation-level error when no transaction is active (the
  transaction flag is tested first); and otherwise it succeeds, and the connection it
  leaves is in the transaction, holds the options, and has no buffered statement and no
  buffered delayed result. The connection is unchanged when it fails, and nothing but
  the flag and the options is changed when it succeeds.
\<close>

theorem BeginTx_cases:
  assumes "reachable conn"
  shows "(inTx conn \<longrightarrow> BeginTx conn opts = (conn, Err ErrInTx)) \<and>
         (Isolation opts \<noteq> LevelDefault \<longrightarrow> (\<exists>err. BeginTx conn opts = (conn, Err err))) \<and>
         (\<not> inTx conn \<and> Isolation opts \<noteq> LevelDefault \<longrightarrow>
            BeginTx conn opts = (conn, Err (Wrapf ''isolation level '' ErrNotSupported))) \<and>
         (\<not> inTx conn \<and> Isolation opts = LevelDefault \<longrightarrow>
            snd (BeginTx conn opts) = Ok () \<and>
            inTx (fst (BeginTx conn opts)) \<and>
            txOpts (fst (BeginTx conn opts)) = opts \<and>
            sqls (fst (BeginTx conn opts)) = [] \<and>
            delayedResult (fst (BeginTx conn opts)) = [] \<and>
            BeginTx conn opts = (conn\<lparr>inTx := True, txOpts := opts\<rparr>, Ok ()))"
  using reachable_invariant [OF assms] by (auto simp add: BeginTx_def)

text \<open>
  The theorem at a begun connection (a second begin, with a serializable and with a
  default isolation level), and at a new connection with a serializable and with a
  default isolation level.
\<close>

theorem BeginTx_cases_witness:
  "reachable connBegun \<and> inTx connBegun \<and>
   BeginTx connBegun optsSerializable = (connBegun, Err ErrInTx) \<and>
   BeginTx connBegun TxOptions0 = (connBegun, Err ErrInTx) \<and>
   reachable connNew \<and> \<not> inTx connNew \<and> Isolation optsSerializable \<noteq> LevelDefault \<and>
   BeginTx connNew optsSerializable
     = (connNew, Err (Wrapf ''isolation level '' ErrNotSupported)) \<and>
   Isolation TxOptions0 = LevelDefault \<and>
   snd (BeginTx connNew TxOptions0) = Ok () \<and>
   inTx (fst (BeginTx connNew TxOptions0)) \<and>
   txOpts (fst (BeginTx connNew TxOptions0)) = TxOptions0 \<and>
   sqls (fst (BeginTx connNew TxOptions0)) = [] \<and>
   delayedResult (fst (BeginTx connNew TxOptions0)) = []"
  using BeginTx_cases [OF reachable_connBegun, of optsSerializable]
    BeginTx_cases [OF reachable_connBegun, of TxOptions0]
    BeginTx_cases [OF reachable_connNew, of optsSerializable]
    BeginTx_cases [OF reachable_connNew, of TxOptions0]
    reachable_connBegun reachable_connNew
  by (simp add: connBegun_eq connNew_def NewConnection_def optsSerializable_def
      LevelDefault_def TxOptions0_def)

subsection \<open>Operations that are not supported\<close>

text \<open>
  C7. Prepare (for any text), query in a transaction, exec with arguments in a
  transaction, exec in a read-only transaction and begin with an isolation level other
  than the default each return an error and the connection as it was: its record of
  remote calls is the same, so no \<open>ExecuteStatement\<close>, wait or \<open>BatchExecuteStatement\<close>
  was asked of a collaborator.
\<close>

theorem unsupported_rejected_locally:
  "PrepareContext conn query = (conn, Err (Wrapf ''prepared statment '' ErrNotSupported)) \<and>
   (inTx conn \<longrightarrow> QueryContext e conn query args = (conn, Err ErrInTx)) \<and>
   (inTx conn \<and> args \<noteq> [] \<longrightarrow>
      ExecContext e conn query args
        = (conn, Err (Wrapf ''exec with args in transaction: '' ErrNotSupported))) \<and>
   (inTx conn \<and> ReadOnly (txOpts conn) \<longrightarrow>
      ExecContext e conn query args
        = (conn, Err (Wrapf (if args \<noteq> [] then ''exec with args in transaction: ''
                             else ''exec in read only transaction: '') ErrNotSupported))) \<and>
   (Isolation opts \<noteq> LevelDefault \<longrightarrow>
      BeginTx conn opts
        = (conn, Err (if inTx conn then ErrInTx
                      else Wrapf ''isolation level '' ErrNotSupported)))"
  by (simp add: operation_defs)

text \<open>
  The theorem at a connection in a read-only transaction, with one argument and with
  none, and a serializable isolation level; the record of remote calls stays empty.
\<close>

theorem unsupported_rejected_locally_witness:
  "inTx connReadOnly \<and> [arg1] \<noteq> [] \<and> ReadOnly (txOpts connReadOnly) \<and>
   Isolation optsSerializable \<noteq> LevelDefault \<and>
   PrepareContext connReadOnly ''SELECT 1''
     = (connReadOnly, Err (Wrapf ''prepared statment '' ErrNotSupported)) \<and>
   QueryContext (envBatch []) connReadOnly ''SELECT 1'' [arg1] = (connReadOnly, Err ErrInTx) \<and>
   ExecContext (envBatch []) connReadOnly ''DELETE FROM t WHERE a = ?'' [arg1]
     = (connReadOnly, Err (Wrapf ''exec with args in transaction: '' ErrNotSupported)) \<and>
   ExecContext (envBatch []) connReadOnly ''DELETE FROM t'' []
     = (connReadOnly, Err (Wrapf ''exec in read only transaction: '' ErrNotSupported)) \<and>
   BeginTx connReadOnly optsSerializable = (connReadOnly, Err ErrInTx) \<and>
   calls connReadOnly = []"
  using unsupported_rejected_locally
      [of connReadOnly "''SELECT 1''" "envBatch []" "[arg1]" optsSerializable]
    unsupported_rejected_locally
      [of connReadOnly "''DELETE FROM t WHERE a = ?''" "envBatch []" "[arg1]" optsSerializable]
    unsupported_rejected_locally
      [of connReadOnly "''DELETE FROM t''" "envBatch []" "[]" optsSerializable]
  by (simp add: sample_defs BeginTx_def)

text \<open>
  The record of remote calls is not idle: an exec outside a transaction asks the client
  to execute the rewritten statement and then waits for it.
\<close>

lemma exec_outside_tx_calls:
  "calls (fst (ExecContext (envBatch []) connNew ''DELETE FROM t WHERE a = ?'' [arg1]))
     = [CallClientExecuteStatement
          \<lparr>Sql = Some ''DELETE FROM t WHERE a = :1'',
           Parameters = [\<lparr>paramName = ''1'', paramValue = ''42''\<rparr>],
           ClusterIdentifier = None, Database = Some ''dev'', DbUser = None,
           SecretArn = None, WorkgroupName = Some ''default''\<rparr>,
        CallWaitWithCancel (Some ''id-1'')]"
  by (simp add: sample_defs ExecContext_def executeStatement_def statementInput_def
      sessionTarget_def afterWait_def rewriter_defs convertArgsToParameters_def Nullif_def
      decimalInt_def decimal.simps Let_def StatusStringAborted_def StatusStringFailed_def
      StatusStringFinished_def)

subsection \<open>The status of a statement after the wait\<close>

text \<open>
  When the client has accepted the statement and the wait has returned the description
  \<open>d\<close>: an aborted status with the reported message \<open>msg\<close> gives the error
  \<open>query aborted: msg\<close>, a failed status with the reported message \<open>msg\<close> gives the
  error \<open>query failed: msg\<close>, any status other than aborted, failed and finished gives
  the error \<open>query status is not finished\<close> with the status, and a result is returned
  only when the status is finished.
\<close>

lemma status_mapping:
  assumes "clientExecuteStatement e (sessionTarget conn params) = Inr execId"
    and "waitWithCancel e execId = Inr d"
  shows "(Status d = StatusStringAborted \<and> Error d = Some msg \<longrightarrow>
            snd (executeStatement e conn params) = Err (Errorf (''query aborted: '' @ msg))) \<and>
         (Status d = StatusStringFailed \<and> Error d = Some msg \<longrightarrow>
            snd (executeStatement e conn params) = Err (Errorf (''query failed: '' @ msg))) \<and>
         (Status d \<noteq> StatusStringAborted \<and> Status d \<noteq> StatusStringFailed \<and>
          Status d \<noteq> StatusStringFinished \<longrightarrow>
            snd (executeStatement e conn params)
              = Err (Errorf (''query status is not finished: '' @ Status d))) \<and>
         (\<forall>res. snd (executeStatement e conn params) = Ok res \<longrightarrow>
            Status d = StatusStringFinished)"
  using assms
  by (auto simp add: executeStatement_def afterWait_def Let_def StatusStringAborted_def
      StatusStringFailed_def StatusStringFinished_def split: option.splits bool.splits)

text \<open>
  The message is read through a pointer. Whatever the connection and the statement,
  when the wait returns an aborted or a failed description whose \<open>Error\<close> is \<open>nil\<close>,
  the dereference panics and no error is returned.
\<close>

lemma status_without_message:
  assumes "clientExecuteStatement e (sessionTarget conn params) = Inr execId"
    and "waitWithCancel e execId = Inr d"
    and "Status d = StatusStringAborted \<or> Status d = StatusStringFailed"
    and "Error d = None"
  shows "snd (executeStatement e conn params) = Panic ''nil pointer dereference''"
  using assms
  by (auto simp add: executeStatement_def afterWait_def Let_def StatusStringAborted_def
      StatusStringFailed_def)

text \<open>
  C9 at a failing input: a statement run outside a transaction on a new connection,
  the client accepts it, and the wait returns a description with status \<open>ABORTED\<close>
  (and, in the second case, \<open>FAILED\<close>) whose \<open>Error\<close> is \<open>nil\<close>. The client and the
  wait have both been called, and \<open>executeStatement\<close> panics on
  \<open>*describeOutput.Error\<close>: it returns neither an error nor a result. With a message
  reported, the same two calls return the errors that carry it.
\<close>

theorem status_without_message_panics:
  "snd (executeStatement (envDescribe abortedNoMessage) connNew
         (statementInput ''DELETE FROM t'' []))
     = Panic ''nil pointer dereference'' \<and>
   snd (executeStatement (envDescribe failedNoMessage) connNew
         (statementInput ''DELETE FROM t'' []))
     = Panic ''nil pointer dereference'' \<and>
   snd (ExecContext (envDescribe abortedNoMessage) connNew ''DELETE FROM t'' [])
     = Panic ''nil pointer dereference'' \<and>
   calls (fst (executeStatement (envDescribe abortedNoMessage) connNew
                (statementInput ''DELETE FROM t'' [])))
     = [CallClientExecuteStatement
          (sessionTarget connNew (statementInput ''DELETE FROM t'' [])),
        CallWaitWithCancel (Some ''id-1'')] \<and>
   snd (executeStatement (envDescribe abortedD) connNew (statementInput ''DELETE FROM t'' []))
     = Err (Errorf ''query aborted: cancelled by user'') \<and>
   snd (executeStatement (envDescribe failedD) connNew (statementInput ''DELETE FROM t'' []))
     = Err (Errorf ''query failed: relation t does not exist'')"
  by (simp add: executeStatement_def ExecContext_def afterWait_def envDescribe_def
      abortedNoMessage_def failedNoMessage_def abortedD_def failedD_def connNew_def
      NewConnection_def Let_def StatusStringAborted_def StatusStringFailed_def
      StatusStringFinished_def)

text \<open>
  The mapping at a new connection, for a wait that returns an aborted and a failed
  description with a message, a started and a finished description.
\<close>

lemma status_mapping_examples:
  "snd (executeStatement (envDescribe abortedD) connNew (statementInput ''DELETE FROM t'' []))
     = Err (Errorf ''query aborted: cancelled by user'') \<and>
   snd (executeStatement (envDescribe failedD) connNew (statementInput ''DELETE FROM t'' []))
     = Err (Errorf ''query failed: relation t does not exist'') \<and>
   snd (executeStatement (envDescribe startedD) connNew (statementInput ''DELETE FROM t'' []))
     = Err (Errorf ''query status is not finished: STARTED'') \<and>
   snd (executeStatement (envDescribe finished1) connNew (statementInput ''DELETE FROM t'' []))
     = Ok (None, finished1) \<and>
   Status finished1 = StatusStringFinished"
proof -
  have c: "clientExecuteStatement (envDescribe d)
             (sessionTarget connNew (statementInput ''DELETE FROM t'' [])) = Inr (Some ''id-1'')"
    for d by (simp add: envDescribe_def)
  have w: "waitWithCancel (envDescribe d) (Some ''id-1'') = Inr d" for d
    by (simp add: envDescribe_def)
  have fin: "snd (executeStatement (envDescribe finished1) connNew
                (statementInput ''DELETE FROM t'' [])) = Ok (None, finished1)"
    by (simp add: executeStatement_def afterWait_def envDescribe_def finished1_def Let_def
        StatusStringAborted_def StatusStringFailed_def StatusStringFinished_def)
  show ?thesis
    using status_mapping [OF c w, of abortedD "''cancelled by user''"]
      status_mapping [OF c w, of failedD "''relation t does not exist''"]
      status_mapping [OF c w, of startedD "[]"]
      status_mapping [OF c w, of finished1 "[]"] fin
    by (simp add: abortedD_def failedD_def startedD_def finished1_def
        StatusStringAborted_def StatusStringFailed_def StatusStringFinished_def)
qed

subsection \<open>Close\<close>

text \<open>
  C10. \<open>Close\<close> changes nothing but the closed flag and the liveness channel: the
  transaction flag, the recorded options, the buffered statements, the buffered delayed
  results, their cells and the configuration are as before, also with a transaction
  open, and no remote call is made.
\<close>

theorem Close_frame:
  "Close conn
     = (conn\<lparr>isClosed := True, aliveChClosed := (\<not> isClosed conn \<or> aliveChClosed conn)\<rparr>, Ok ()) \<and>
   inTx (fst (Close conn)) = inTx conn \<and>
   txOpts (fst (Close conn)) = txOpts conn \<and>
   sqls (fst (Close conn)) = sqls conn \<and>
   delayedResult (fst (Close conn)) = delayedResult conn \<and>
   heap (fst (Close conn)) = heap conn \<and>
   calls (fst (Close conn)) = calls conn \<and>
   cfg (fst (Close conn)) = cfg conn"
  by (simp add: Close_def)

text \<open>The theorem at the connection with an open transaction and one buffered statement.\<close>

theorem Close_frame_witness:
  "inTx (fst (Close connOne)) \<and>
   txOpts (fst (Close connOne)) = TxOptions0 \<and>
   sqls (fst (Close connOne)) = [''INSERT INTO t VALUES (1)''] \<and>
   delayedResult (fst (Close connOne)) = [Some 0] \<and>
   heap (fst (Close connOne)) = [NilResult, NilResult] \<and>
   isClosed (fst (Close connOne))"
  using Close_frame [of connOne]
  by (simp add: connOne_eq connNew_def NewConnection_def)

end
